theory Spec2Isabelle
  imports Complex_Main
begin

section \<open>Data model (pricing-engine, internal/models)\<close>

text \<open>
  The Go code computes on \<open>float64\<close>. The specification calls these values decimals and
  leaves rounding open, so they are modelled here as exact reals: every theorem below
  is about the formulas the code composes, not about binary rounding. Go \<open>int\<close> fields
  are only compared and printed, never added, so they are plain integers. A Go
  \<open>map[string]T\<close> is a partial function; where the code ranges over a map, the order
  the runtime picks is an explicit argument.
\<close>

type_synonym float64 = real

record QuoteRequest =
  PolicyType :: string
  CoverageAmount :: int
  CustomerAge :: int
  RiskScore :: int
  CustomerID :: string
  MultiPolicy :: bool
  LoyaltyYears :: int
  PaperlessBill :: bool
  ClaimsHistory :: int

record Factors =
  BaseMultiplier :: float64
  CoverageMultiplier :: float64
  Factors_AgeMultiplier :: float64
  Factors_RiskMultiplier :: float64
  DynamicMultiplier :: float64
  DiscountAmount :: float64

record Quote =
  QuoteID :: string
  Quote_PolicyType :: string
  Quote_CoverageAmount :: int
  BaseRate :: float64
  AdjustedRate :: float64
  Discount :: float64
  FinalPremium :: float64
  ValidUntil :: int
  CreatedAt :: int
  Quote_Factors :: "Factors option"

record Rate =
  Rate_PolicyType :: string
  Rate_BaseRate :: float64
  Rate_Coverage :: "string \<rightharpoonup> float64"

record PolicyRates =
  Base :: float64
  Coverage :: "string \<rightharpoonup> float64"
  AgeMultiplier :: "string \<rightharpoonup> float64"
  RiskMultiplier :: "string \<rightharpoonup> float64"

record Discounts =
  Discounts_MultiPolicy :: float64
  Discounts_LoyaltyYears :: "string \<rightharpoonup> float64"
  LowRisk :: float64
  PaperlessBilling :: float64

record DynamicFactors =
  Seasonality :: "string \<rightharpoonup> float64"
  MarketConditions :: float64
  Factors_ClaimsHistory :: "string \<rightharpoonup> float64"

record DynamicPricing =
  Enabled :: bool
  Dynamic_Factors :: DynamicFactors

record Metadata =
  LastUpdated :: string
  Version :: string
  EffectiveDate :: string

record PricingRules =
  BaseRates :: "string \<rightharpoonup> PolicyRates"
  Rules_Discounts :: Discounts
  Rules_DynamicPricing :: DynamicPricing
  Rules_Metadata :: Metadata

record RatesResponse =
  Rates :: "Rate list"
  Timestamp :: int

section \<open>Service state and what the runtime supplies to a call\<close>

text \<open>
  \<open>pricingRules\<close> is a pointer that the repository checks against nil; \<open>flags\<close> is a
  pointer that \<open>IsDynamicRatesEnabled\<close> checks against nil. The mutexes and the logger
  carry no value that a result depends on and are left out.
\<close>

record Flags =
  dynamicRates :: bool

record Repository =
  pricingRules :: "PricingRules option"

record PricingService =
  repo :: Repository
  flags :: "Flags option"

text \<open>
  Everything a call reads that is neither the request nor the service: the month of the
  \<open>time.Now()\<close> read by \<open>getCurrentQuarter\<close>, the two further clock readings of
  \<open>CalculateQuote\<close> (nanoseconds), the fresh UUID, and the order in which the runtime
  enumerates the two maps the code ranges over.
\<close>

record Runtime =
  now_month :: int
  now_validUntil :: int
  now_createdAt :: int
  now_timestamp :: int
  new_uuid :: string
  loyalty_order :: "string list"
  rates_order :: "string list"

definition range_order :: "('k \<rightharpoonup> 'v) \<Rightarrow> 'k list \<Rightarrow> bool" where
  "range_order m ks \<longleftrightarrow> distinct ks \<and> set ks = dom m"

text \<open>One constructor for each \<open>fmt.Errorf\<close> site of the two packages.\<close>

datatype error =
    InvalidPolicyType string
  | CoverageNotPositive
  | AgeOutOfRange
  | RiskOutOfRange
  | RulesNotLoaded
  | PolicyTypeNotFound string
  | FailedBaseRate error
  | FailedCoverageMultiplier error
  | FailedAgeMultiplier error
  | FailedRiskMultiplier error

section \<open>Formatting and scanning integers (package fmt)\<close>

definition digit_char :: "nat \<Rightarrow> char" where
  "digit_char d = ''0123456789'' ! d"

function nat_digits :: "nat \<Rightarrow> string" where
  "nat_digits n = (if n < 10 then [digit_char n] else nat_digits (n div 10) @ [digit_char (n mod 10)])"
  by pat_completeness auto
termination
  by (relation "measure id") auto

declare nat_digits.simps [simp del]

text \<open>\<open>fmt.Sprintf("%d", n)\<close>\<close>

definition Sprintf_d :: "int \<Rightarrow> string" where
  "Sprintf_d n = (if n < 0 then CHR ''-'' # nat_digits (nat (- n)) else nat_digits (nat n))"

definition is_digit :: "char \<Rightarrow> bool" where
  "is_digit c \<longleftrightarrow> c \<in> set ''0123456789''"

definition digit_val :: "char \<Rightarrow> int" where
  "digit_val c = int (of_char c) - 48"

definition dec_value :: "string \<Rightarrow> int" where
  "dec_value cs = foldl (\<lambda>acc c. 10 * acc + digit_val c) 0 cs"

text \<open>
  \<open>fmt.Sscanf(s, "%d", &n)\<close>: leading blanks are skipped (a newline is not a blank for
  \<open>Sscanf\<close>, it is an error), one sign is accepted, then the longest run of decimal
  digits and underscores is the token; an empty token, a token with an underscore
  (refused by \<open>strconv.ParseInt\<close> in base 10) and a value outside 64 bits are errors.
  \<open>None\<close> is the error, which leaves \<open>n\<close> as it was. Only the ASCII blanks are
  modelled; the theorems on the loyalty table hold for whatever integer a key scans to.
\<close>

definition is_blank :: "char \<Rightarrow> bool" where
  "is_blank c \<longleftrightarrow> c \<in> set [CHR '' '', CHR 0x09, CHR 0x0B, CHR 0x0C, CHR 0x0D]"

definition Sscanf_d :: "string \<Rightarrow> int option" where
  "Sscanf_d s =
     (let s1 = dropWhile is_blank s;
          neg = (s1 \<noteq> [] \<and> hd s1 = CHR ''-'');
          s2 = (if s1 \<noteq> [] \<and> (hd s1 = CHR ''-'' \<or> hd s1 = CHR ''+'') then tl s1 else s1);
          tok = takeWhile (\<lambda>c. is_digit c \<or> c = CHR ''_'') s2;
          v = (if neg then - dec_value tok else dec_value tok)
      in if tok = [] \<or> CHR ''_'' \<in> set tok then None
         else if v < - 9223372036854775808 \<or> 9223372036854775808 \<le> v then None
         else Some v)"

section \<open>Repository (internal/repository/repository.go)\<close>

definition GetBaseRateForPolicy :: "Repository \<Rightarrow> string \<Rightarrow> error + float64" where
  "GetBaseRateForPolicy r policyType =
     (case pricingRules r of
        None \<Rightarrow> Inl RulesNotLoaded
      | Some rules \<Rightarrow>
          (case BaseRates rules policyType of
             None \<Rightarrow> Inl (PolicyTypeNotFound policyType)
           | Some rates \<Rightarrow> Inr (Base rates)))"

definition GetCoverageMultiplier :: "Repository \<Rightarrow> string \<Rightarrow> int \<Rightarrow> error + float64" where
  "GetCoverageMultiplier r policyType coverageAmount =
     (case pricingRules r of
        None \<Rightarrow> Inl RulesNotLoaded
      | Some rules \<Rightarrow>
          (case BaseRates rules policyType of
             None \<Rightarrow> Inl (PolicyTypeNotFound policyType)
           | Some rates \<Rightarrow>
               (let coverageStr = Sprintf_d coverageAmount
                in case Coverage rates coverageStr of
                     None \<Rightarrow> Inr 1
                   | Some multiplier \<Rightarrow> Inr multiplier)))"

text \<open>The \<open>switch\<close> of \<open>GetAgeMultiplier\<close>; \<open>None\<close> is its \<open>default\<close> branch.\<close>

definition ageRange :: "int \<Rightarrow> string option" where
  "ageRange age =
     (if age \<ge> 18 \<and> age \<le> 24 then Some ''18-24''
      else if age \<ge> 25 \<and> age \<le> 34 then Some ''25-34''
      else if age \<ge> 35 \<and> age \<le> 49 then Some ''35-49''
      else if age \<ge> 50 \<and> age \<le> 64 then Some ''50-64''
      else if age \<ge> 65 then Some ''65+''
      else None)"

definition altRanges :: "string \<rightharpoonup> string" where
  "altRanges = [''18-24'' \<mapsto> ''18-34'', ''25-34'' \<mapsto> ''18-34'']"

definition GetAgeMultiplier :: "Repository \<Rightarrow> string \<Rightarrow> int \<Rightarrow> error + float64" where
  "GetAgeMultiplier r policyType age =
     (case pricingRules r of
        None \<Rightarrow> Inl RulesNotLoaded
      | Some rules \<Rightarrow>
          (case BaseRates rules policyType of
             None \<Rightarrow> Inl (PolicyTypeNotFound policyType)
           | Some rates \<Rightarrow>
               (case ageRange age of
                  None \<Rightarrow> Inr 1
                | Some rng \<Rightarrow>
                    (case AgeMultiplier rates rng of
                       Some multiplier \<Rightarrow> Inr multiplier
                     | None \<Rightarrow>
                         (if policyType = ''home'' then
                            (case altRanges rng of
                               Some altRange \<Rightarrow>
                                 (case AgeMultiplier rates altRange of
                                    Some multiplier \<Rightarrow> Inr multiplier
                                  | None \<Rightarrow> Inr 1)
                             | None \<Rightarrow> Inr 1)
                          else Inr 1)))))"

definition GetRiskMultiplier :: "Repository \<Rightarrow> string \<Rightarrow> int \<Rightarrow> error + float64" where
  "GetRiskMultiplier r policyType riskScore =
     (case pricingRules r of
        None \<Rightarrow> Inl RulesNotLoaded
      | Some rules \<Rightarrow>
          (case BaseRates rules policyType of
             None \<Rightarrow> Inl (PolicyTypeNotFound policyType)
           | Some rates \<Rightarrow>
               (let riskStr = Sprintf_d riskScore
                in case RiskMultiplier rates riskStr of
                     None \<Rightarrow> Inr 1
                   | Some multiplier \<Rightarrow> Inr multiplier)))"

definition GetDiscounts :: "Repository \<Rightarrow> Discounts option" where
  "GetDiscounts r = (case pricingRules r of None \<Rightarrow> None | Some rules \<Rightarrow> Some (Rules_Discounts rules))"

definition GetDynamicPricing :: "Repository \<Rightarrow> DynamicPricing option" where
  "GetDynamicPricing r =
     (case pricingRules r of None \<Rightarrow> None | Some rules \<Rightarrow> Some (Rules_DynamicPricing rules))"

text \<open>
  \<open>GetAllRates\<close> appends one \<open>Rate\<close> for each entry that \<open>range\<close> yields; \<open>order\<close> is the
  sequence of keys the runtime enumerates. A key with no entry is never yielded.
\<close>

definition GetAllRates :: "Repository \<Rightarrow> string list \<Rightarrow> Rate list" where
  "GetAllRates r order =
     (case pricingRules r of
        None \<Rightarrow> []
      | Some rules \<Rightarrow>
          List.map_filter
            (\<lambda>policyType.
               case BaseRates rules policyType of
                 None \<Rightarrow> None
               | Some policyRates \<Rightarrow>
                   Some \<lparr>Rate_PolicyType = policyType,
                         Rate_BaseRate = Base policyRates,
                         Rate_Coverage = Coverage policyRates\<rparr>)
            order)"

section \<open>Feature flags (internal/features/flags.go)\<close>

definition IsDynamicRatesEnabled :: "Flags option \<Rightarrow> bool" where
  "IsDynamicRatesEnabled f = (case f of None \<Rightarrow> False | Some fl \<Rightarrow> dynamicRates fl)"

section \<open>Pricing service (internal/services/pricing_service.go)\<close>

definition validateRequest :: "QuoteRequest \<Rightarrow> error option" where
  "validateRequest req =
     (if PolicyType req \<noteq> ''auto'' \<and> PolicyType req \<noteq> ''home'' \<and> PolicyType req \<noteq> ''life''
        then Some (InvalidPolicyType (PolicyType req))
      else if CoverageAmount req \<le> 0 then Some CoverageNotPositive
      else if CustomerAge req < 18 \<or> CustomerAge req > 120 then Some AgeOutOfRange
      else if RiskScore req < 1 \<or> RiskScore req > 5 then Some RiskOutOfRange
      else None)"

definition generateQuoteID :: "string \<Rightarrow> string" where
  "generateQuoteID uuid = ''Q-'' @ take 8 uuid"

definition getCurrentQuarter :: "int \<Rightarrow> string" where
  "getCurrentQuarter month =
     (if month \<ge> 1 \<and> month \<le> 3 then ''Q1''
      else if month \<ge> 4 \<and> month \<le> 6 then ''Q2''
      else if month \<ge> 7 \<and> month \<le> 9 then ''Q3''
      else ''Q4'')"

definition getClaimsHistoryKey :: "int \<Rightarrow> string" where
  "getClaimsHistoryKey claims =
     (if claims = 0 then ''0''
      else if claims = 1 then ''1''
      else if claims = 2 then ''2''
      else ''3+'')"

definition calculateDynamicMultiplier :: "PricingService \<Rightarrow> Runtime \<Rightarrow> QuoteRequest \<Rightarrow> float64" where
  "calculateDynamicMultiplier s rt req =
     (case GetDynamicPricing (repo s) of
        None \<Rightarrow> 1
      | Some dynamicPricing \<Rightarrow>
          if \<not> Enabled dynamicPricing then 1
          else
            (let multiplier = 1;
                 quarter = getCurrentQuarter (now_month rt);
                 multiplier = (case Seasonality (Dynamic_Factors dynamicPricing) quarter of
                                 Some seasonalityFactor \<Rightarrow> multiplier * seasonalityFactor
                               | None \<Rightarrow> multiplier);
                 multiplier = multiplier * MarketConditions (Dynamic_Factors dynamicPricing);
                 claimsKey = getClaimsHistoryKey (ClaimsHistory req);
                 multiplier = (case Factors_ClaimsHistory (Dynamic_Factors dynamicPricing) claimsKey of
                                 Some claimsFactor \<Rightarrow> multiplier * claimsFactor
                               | None \<Rightarrow> multiplier)
             in multiplier))"

text \<open>
  The loop of \<open>getLoyaltyDiscount\<close> over the keys the runtime enumerates, with
  \<open>applicableDiscount\<close> as the accumulator. \<open>requiredYears\<close> is declared afresh in every
  iteration, so a key that does not scan leaves it at 0: that is \<open>scan_requiredYears\<close>.
\<close>

definition scan_requiredYears :: "string \<Rightarrow> int" where
  "scan_requiredYears yearsStr = (case Sscanf_d yearsStr of None \<Rightarrow> 0 | Some n \<Rightarrow> n)"

fun getLoyaltyDiscount_loop :: "int \<Rightarrow> (string \<rightharpoonup> float64) \<Rightarrow> string list \<Rightarrow> float64 \<Rightarrow> float64" where
  "getLoyaltyDiscount_loop years tbl [] applicableDiscount = applicableDiscount"
| "getLoyaltyDiscount_loop years tbl (yearsStr # rest) applicableDiscount =
     (case tbl yearsStr of
        None \<Rightarrow> getLoyaltyDiscount_loop years tbl rest applicableDiscount
      | Some discount \<Rightarrow>
          (let requiredYears = scan_requiredYears yearsStr
           in getLoyaltyDiscount_loop years tbl rest
                (if years \<ge> requiredYears \<and> discount > applicableDiscount
                 then discount else applicableDiscount)))"

definition getLoyaltyDiscount :: "Runtime \<Rightarrow> int \<Rightarrow> Discounts \<Rightarrow> float64" where
  "getLoyaltyDiscount rt years discounts =
     getLoyaltyDiscount_loop years (Discounts_LoyaltyYears discounts) (loyalty_order rt) 0"

definition calculateDiscount :: "PricingService \<Rightarrow> Runtime \<Rightarrow> QuoteRequest \<Rightarrow> float64 \<Rightarrow> float64" where
  "calculateDiscount s rt req adjustedRate =
     (case GetDiscounts (repo s) of
        None \<Rightarrow> 0
      | Some discounts \<Rightarrow>
          (let totalDiscount = 0;
               totalDiscount = (if MultiPolicy req
                                then totalDiscount + adjustedRate * Discounts_MultiPolicy discounts
                                else totalDiscount);
               totalDiscount = (if LoyaltyYears req > 0
                                then totalDiscount
                                     + adjustedRate * getLoyaltyDiscount rt (LoyaltyYears req) discounts
                                else totalDiscount);
               totalDiscount = (if RiskScore req = 1
                                then totalDiscount + adjustedRate * LowRisk discounts
                                else totalDiscount);
               totalDiscount = (if PaperlessBill req
                                then totalDiscount + adjustedRate * PaperlessBilling discounts
                                else totalDiscount)
           in totalDiscount))"

definition thirty_days :: int where
  "thirty_days = 30 * 24 * (3600 * 1000000000)"

definition CalculateQuote :: "PricingService \<Rightarrow> Runtime \<Rightarrow> QuoteRequest \<Rightarrow> error + Quote" where
  "CalculateQuote s rt req =
     (case validateRequest req of
        Some err \<Rightarrow> Inl err
      | None \<Rightarrow>
     (case GetBaseRateForPolicy (repo s) (PolicyType req) of
        Inl err \<Rightarrow> Inl (FailedBaseRate err)
      | Inr baseRate \<Rightarrow>
     (case GetCoverageMultiplier (repo s) (PolicyType req) (CoverageAmount req) of
        Inl err \<Rightarrow> Inl (FailedCoverageMultiplier err)
      | Inr coverageMultiplier \<Rightarrow>
     (case GetAgeMultiplier (repo s) (PolicyType req) (CustomerAge req) of
        Inl err \<Rightarrow> Inl (FailedAgeMultiplier err)
      | Inr ageMultiplier \<Rightarrow>
     (case GetRiskMultiplier (repo s) (PolicyType req) (RiskScore req) of
        Inl err \<Rightarrow> Inl (FailedRiskMultiplier err)
      | Inr riskMultiplier \<Rightarrow>
          (let basePremium = baseRate * coverageMultiplier * ageMultiplier * riskMultiplier;
               dynamicMultiplier = (if IsDynamicRatesEnabled (flags s)
                                    then calculateDynamicMultiplier s rt req else 1);
               adjustedRate = basePremium * dynamicMultiplier;
               discount = calculateDiscount s rt req adjustedRate;
               finalPremium = adjustedRate - discount
           in Inr \<lparr>QuoteID = generateQuoteID (new_uuid rt),
                    Quote_PolicyType = PolicyType req,
                    Quote_CoverageAmount = CoverageAmount req,
                    BaseRate = basePremium,
                    AdjustedRate = adjustedRate,
                    Discount = discount,
                    FinalPremium = finalPremium,
                    ValidUntil = now_validUntil rt + thirty_days,
                    CreatedAt = now_createdAt rt,
                    Quote_Factors = Some \<lparr>BaseMultiplier = baseRate,
                                          CoverageMultiplier = coverageMultiplier,
                                          Factors_AgeMultiplier = ageMultiplier,
                                          Factors_RiskMultiplier = riskMultiplier,
                                          DynamicMultiplier = dynamicMultiplier,
                                          DiscountAmount = discount\<rparr>\<rparr>))))))"

definition GetRates :: "PricingService \<Rightarrow> Runtime \<Rightarrow> RatesResponse" where
  "GetRates s rt = \<lparr>Rates = GetAllRates (repo s) (rates_order rt), Timestamp = now_timestamp rt\<rparr>"

text \<open>
  A call as a step on the service: \<open>CalculateQuote\<close> takes only read locks and assigns
  to no field of the service, the repository or the flags, so the service after the
  call is the service before it.
\<close>

definition CalculateQuote_step ::
  "PricingService \<Rightarrow> Runtime \<Rightarrow> QuoteRequest \<Rightarrow> (error + Quote) \<times> PricingService" where
  "CalculateQuote_step s rt req = (CalculateQuote s rt req, s)"

section \<open>The specification's formulas\<close>

text \<open>
  The definitions of this section follow the words of the specification, not the code;
  the theorems compare them with the code above. Each is named \<open>spec_\<close>, except
  \<open>neutral\<close>, the value 1.0 that a missing table entry stands for.
\<close>

text \<open>Section 4.2: the five fixed age brackets.\<close>

definition spec_ageBracket :: "int \<Rightarrow> string" where
  "spec_ageBracket age =
     (if age \<le> 24 then ''18-24''
      else if age \<le> 34 then ''25-34''
      else if age \<le> 49 then ''35-49''
      else if age \<le> 64 then ''50-64''
      else ''65+'')"

text \<open>
  Section 4.2: exact bracket first, then for home policies the combined bracket for the
  two youngest brackets, then 1.0.
\<close>

definition spec_resolveAgeMultiplier :: "PolicyRates \<Rightarrow> string \<Rightarrow> int \<Rightarrow> float64" where
  "spec_resolveAgeMultiplier rates policyType age =
     (let bracket = spec_ageBracket age
      in case AgeMultiplier rates bracket of
           Some m \<Rightarrow> m
         | None \<Rightarrow>
             if policyType = ''home'' \<and> (bracket = ''18-24'' \<or> bracket = ''25-34'')
             then (case AgeMultiplier rates ''18-34'' of Some m \<Rightarrow> m | None \<Rightarrow> 1)
             else 1)"


definition neutral :: "float64 option \<Rightarrow> float64" where
  "neutral entry = (case entry of None \<Rightarrow> 1 | Some v \<Rightarrow> v)"




section \<open>Notions used in the statements\<close>

text \<open>
  The sum of fractions in the form the theorem on discounts proves it of the code: the
  loyalty fraction is nothing unless the loyalty years are positive, and never less
  than 0.
\<close>

definition loyaltyFraction :: "(string \<rightharpoonup> float64) \<Rightarrow> int \<Rightarrow> float64" where
  "loyaltyFraction tbl years =
     (if years > 0
      then Max (insert 0 {f. \<exists>k. tbl k = Some f \<and> scan_requiredYears k \<le> years})
      else 0)"

definition discountFractions :: "Discounts \<Rightarrow> QuoteRequest \<Rightarrow> float64" where
  "discountFractions d req =
     (if MultiPolicy req then Discounts_MultiPolicy d else 0)
     + loyaltyFraction (Discounts_LoyaltyYears d) (LoyaltyYears req)
     + (if RiskScore req = 1 then LowRisk d else 0)
     + (if PaperlessBill req then PaperlessBilling d else 0)"

text \<open>
  The fractions that the loop of \<open>getLoyaltyDiscount\<close> can pick while it runs over the
  keys \<open>ks\<close>.
\<close>

definition applicable :: "(string \<rightharpoonup> float64) \<Rightarrow> string list \<Rightarrow> int \<Rightarrow> float64 set" where
  "applicable tbl ks years = {f. \<exists>k\<in>set ks. tbl k = Some f \<and> scan_requiredYears k \<le> years}"

text \<open>The four amounts of a quote that the specification calls reproducible.\<close>

definition amounts :: "error + Quote \<Rightarrow> error + float64 \<times> float64 \<times> float64 \<times> float64" where
  "amounts res = map_sum id (\<lambda>q. (BaseRate q, AdjustedRate q, Discount q, FinalPremium q)) res"

text \<open>The runtime enumerates each map that a call ranges over, every key once.\<close>

definition runtime_ok :: "PricingService \<Rightarrow> Runtime \<Rightarrow> bool" where
  "runtime_ok s rt =
     (case pricingRules (repo s) of
        None \<Rightarrow> True
      | Some rules \<Rightarrow>
          range_order (Discounts_LoyaltyYears (Rules_Discounts rules)) (loyalty_order rt)
          \<and> range_order (BaseRates rules) (rates_order rt))"

text \<open>Any number of quote calls, one after the other, on the same service.\<close>

fun CalculateQuote_steps :: "PricingService \<Rightarrow> (Runtime \<times> QuoteRequest) list \<Rightarrow> PricingService" where
  "CalculateQuote_steps s [] = s"
| "CalculateQuote_steps s ((rt, req) # calls) =
     CalculateQuote_steps (snd (CalculateQuote_step s rt req)) calls"

section \<open>A configuration and requests to evaluate on\<close>

text \<open>
  The rate tables, discounts and dynamic factors that the service's README documents,
  with age and risk multipliers added. \<open>life\<close> is left without an entry, \<open>auto\<close> has
  no entry for the bracket 25-34 but one for the combined bracket, and \<open>home\<close> has only
  the combined bracket for the young and none for 65+.
\<close>

definition risk_table :: "string \<rightharpoonup> float64" where
  "risk_table = [''1'' \<mapsto> 0.8, ''2'' \<mapsto> 1, ''3'' \<mapsto> 1.2, ''4'' \<mapsto> 1.5, ''5'' \<mapsto> 2]"

definition auto_rates :: PolicyRates where
  "auto_rates =
     \<lparr>Base = 800,
      Coverage = [''250000'' \<mapsto> 1, ''300000'' \<mapsto> 1.15, ''400000'' \<mapsto> 1.35, ''500000'' \<mapsto> 1.55],
      AgeMultiplier = [''18-24'' \<mapsto> 1.5, ''35-49'' \<mapsto> 1, ''50-64'' \<mapsto> 1.1, ''65+'' \<mapsto> 1.3,
                       ''18-34'' \<mapsto> 7],
      RiskMultiplier = risk_table\<rparr>"

definition home_rates :: PolicyRates where
  "home_rates =
     \<lparr>Base = 1200,
      Coverage = [''500000'' \<mapsto> 1, ''650000'' \<mapsto> 1.2, ''750000'' \<mapsto> 1.4, ''1000000'' \<mapsto> 1.8,
                  ''1200000'' \<mapsto> 2.2],
      AgeMultiplier = [''18-34'' \<mapsto> 1.25, ''35-49'' \<mapsto> 1, ''50-64'' \<mapsto> 0.95],
      RiskMultiplier = risk_table\<rparr>"

definition example_discounts :: Discounts where
  "example_discounts =
     \<lparr>Discounts_MultiPolicy = 0.15,
      Discounts_LoyaltyYears = [''1'' \<mapsto> 0, ''2'' \<mapsto> 0.05, ''3'' \<mapsto> 0.08, ''5'' \<mapsto> 0.12, ''10'' \<mapsto> 0.18],
      LowRisk = 0.1,
      PaperlessBilling = 0.03\<rparr>"

definition example_dynamic :: DynamicPricing where
  "example_dynamic =
     \<lparr>Enabled = True,
      Dynamic_Factors =
        \<lparr>Seasonality = [''Q1'' \<mapsto> 0.95, ''Q2'' \<mapsto> 1, ''Q3'' \<mapsto> 1.05, ''Q4'' \<mapsto> 1.02],
         MarketConditions = 1,
         Factors_ClaimsHistory = [''0'' \<mapsto> 0.9, ''1'' \<mapsto> 1, ''2'' \<mapsto> 1.15, ''3+'' \<mapsto> 1.3]\<rparr>\<rparr>"

definition example_rules :: PricingRules where
  "example_rules =
     \<lparr>BaseRates = [''auto'' \<mapsto> auto_rates, ''home'' \<mapsto> home_rates],
      Rules_Discounts = example_discounts,
      Rules_DynamicPricing = example_dynamic,
      Rules_Metadata = \<lparr>LastUpdated = ''2024-12-21'', Version = ''1.0.0'', EffectiveDate = ''2025-01-01''\<rparr>\<rparr>"

definition example_service :: "bool \<Rightarrow> PricingService" where
  "example_service dynamic =
     \<lparr>repo = \<lparr>pricingRules = Some example_rules\<rparr>, flags = Some \<lparr>dynamicRates = dynamic\<rparr>\<rparr>"

definition example_runtime :: "int \<Rightarrow> Runtime" where
  "example_runtime month =
     \<lparr>now_month = month, now_validUntil = 1000, now_createdAt = 1001, now_timestamp = 1002,
      new_uuid = ''a3b4c5d6-0e1f-4a2b-8c3d-4e5f6a7b8c9d'',
      loyalty_order = [''10'', ''1'', ''3'', ''5'', ''2''],
      rates_order = [''home'', ''auto'']\<rparr>"

definition example_request :: QuoteRequest where
  "example_request =
     \<lparr>PolicyType = ''auto'', CoverageAmount = 500000, CustomerAge = 35, RiskScore = 2,
      CustomerID = ''CUST-12345'', MultiPolicy = True, LoyaltyYears = 5, PaperlessBill = True,
      ClaimsHistory = 0\<rparr>"

text \<open>The same service with discounts that add up to more than the whole rate.\<close>

definition steep_service :: PricingService where
  "steep_service =
     \<lparr>repo = \<lparr>pricingRules = Some (example_rules
               \<lparr>Rules_Discounts := example_discounts
                  \<lparr>Discounts_MultiPolicy := 0.6, PaperlessBilling := 0.5\<rparr>\<rparr>)\<rparr>,
      flags = Some \<lparr>dynamicRates = False\<rparr>\<rparr>"



definition threshold0_request :: QuoteRequest where
  "threshold0_request =
     example_request\<lparr>MultiPolicy := False, LoyaltyYears := 0, PaperlessBill := False\<rparr>"


text \<open>
  A later call in the same quarter: another month, other clock readings, another UUID
  and another enumeration of the loyalty table.
\<close>

definition later_runtime :: Runtime where
  "later_runtime =
     \<lparr>now_month = 3, now_validUntil = 5000000, now_createdAt = 5000001, now_timestamp = 5000002,
      new_uuid = ''0f1e2d3c-4b5a-4978-8695-a4b3c2d1e0f9'',
      loyalty_order = [''1'', ''2'', ''3'', ''5'', ''10''],
      rates_order = [''auto'', ''home'']\<rparr>"

section \<open>Evaluation rules\<close>

lemma nat_digits_small: "n < 10 \<Longrightarrow> nat_digits n = [digit_char n]"
  by (simp add: nat_digits.simps)

lemma nat_digits_large: "10 \<le> n \<Longrightarrow> nat_digits n = nat_digits (n div 10) @ [digit_char (n mod 10)]"
  by (subst nat_digits.simps) simp

lemmas Sprintf_eval = Sprintf_d_def nat_digits_small nat_digits_large digit_char_def

lemmas Sscanf_eval = scan_requiredYears_def Sscanf_d_def is_blank_def is_digit_def dec_value_def
  digit_val_def

lemmas example_defs = example_service_def example_rules_def example_runtime_def example_request_def
  example_discounts_def example_dynamic_def auto_rates_def home_rates_def risk_table_def

lemmas repo_defs = GetBaseRateForPolicy_def GetCoverageMultiplier_def GetAgeMultiplier_def
  GetRiskMultiplier_def GetDiscounts_def GetDynamicPricing_def

section \<open>Closed forms and totality of the lookups\<close>

lemma calculateDynamicMultiplier_eq:
  "calculateDynamicMultiplier s rt req =
     (case GetDynamicPricing (repo s) of
        None \<Rightarrow> 1
      | Some dp \<Rightarrow>
          if Enabled dp
          then neutral (Seasonality (Dynamic_Factors dp) (getCurrentQuarter (now_month rt)))
               * MarketConditions (Dynamic_Factors dp)
               * neutral (Factors_ClaimsHistory (Dynamic_Factors dp) (getClaimsHistoryKey (ClaimsHistory req)))
          else 1)"
  by (simp add: calculateDynamicMultiplier_def Let_def neutral_def split: option.splits)

lemma calculateDiscount_eq:
  "calculateDiscount s rt req a =
     (case GetDiscounts (repo s) of
        None \<Rightarrow> 0
      | Some d \<Rightarrow>
          (if MultiPolicy req then a * Discounts_MultiPolicy d else 0)
          + (if LoyaltyYears req > 0 then a * getLoyaltyDiscount rt (LoyaltyYears req) d else 0)
          + (if RiskScore req = 1 then a * LowRisk d else 0)
          + (if PaperlessBill req then a * PaperlessBilling d else 0))"
  by (simp add: calculateDiscount_def Let_def split: option.splits)

lemma base_rate_ok:
  "GetBaseRateForPolicy r pt = Inr b \<Longrightarrow>
     \<exists>rules rates. pricingRules r = Some rules \<and> BaseRates rules pt = Some rates \<and> b = Base rates"
  by (auto simp: GetBaseRateForPolicy_def split: option.splits)

lemma base_rate_fail:
  "GetBaseRateForPolicy r pt = Inl e \<Longrightarrow> e = RulesNotLoaded \<or> e = PolicyTypeNotFound pt"
  by (auto simp: GetBaseRateForPolicy_def split: option.splits)

lemma coverage_total:
  "pricingRules r = Some rules \<Longrightarrow> BaseRates rules pt = Some rates \<Longrightarrow>
     GetCoverageMultiplier r pt amt = Inr (neutral (Coverage rates (Sprintf_d amt)))"
  by (simp add: GetCoverageMultiplier_def neutral_def split: option.splits)

lemma risk_total:
  "pricingRules r = Some rules \<Longrightarrow> BaseRates rules pt = Some rates \<Longrightarrow>
     GetRiskMultiplier r pt risk = Inr (neutral (RiskMultiplier rates (Sprintf_d risk)))"
  by (simp add: GetRiskMultiplier_def neutral_def split: option.splits)

lemma age_total:
  "pricingRules r = Some rules \<Longrightarrow> BaseRates rules pt = Some rates \<Longrightarrow>
     \<exists>a. GetAgeMultiplier r pt age = Inr a \<and> (a = 1 \<or> a \<in> ran (AgeMultiplier rates))"
  by (auto simp: GetAgeMultiplier_def ran_def split: option.splits)

lemma ageRange_spec: "18 \<le> age \<Longrightarrow> ageRange age = Some (spec_ageBracket age)"
  by (simp add: ageRange_def spec_ageBracket_def)

lemma CalculateQuote_ok:
  assumes "validateRequest req = None"
    and "GetBaseRateForPolicy (repo s) (PolicyType req) = Inr b"
    and "GetCoverageMultiplier (repo s) (PolicyType req) (CoverageAmount req) = Inr c"
    and "GetAgeMultiplier (repo s) (PolicyType req) (CustomerAge req) = Inr a"
    and "GetRiskMultiplier (repo s) (PolicyType req) (RiskScore req) = Inr k"
  shows "CalculateQuote s rt req =
     Inr \<lparr>QuoteID = generateQuoteID (new_uuid rt),
          Quote_PolicyType = PolicyType req,
          Quote_CoverageAmount = CoverageAmount req,
          BaseRate = b * c * a * k,
          AdjustedRate = b * c * a * k
            * (if IsDynamicRatesEnabled (flags s) then calculateDynamicMultiplier s rt req else 1),
          Discount = calculateDiscount s rt req (b * c * a * k
            * (if IsDynamicRatesEnabled (flags s) then calculateDynamicMultiplier s rt req else 1)),
          FinalPremium = b * c * a * k
            * (if IsDynamicRatesEnabled (flags s) then calculateDynamicMultiplier s rt req else 1)
            - calculateDiscount s rt req (b * c * a * k
            * (if IsDynamicRatesEnabled (flags s) then calculateDynamicMultiplier s rt req else 1)),
          ValidUntil = now_validUntil rt + thirty_days,
          CreatedAt = now_createdAt rt,
          Quote_Factors = Some \<lparr>BaseMultiplier = b,
                                CoverageMultiplier = c,
                                Factors_AgeMultiplier = a,
                                Factors_RiskMultiplier = k,
                                DynamicMultiplier =
                                  (if IsDynamicRatesEnabled (flags s)
                                   then calculateDynamicMultiplier s rt req else 1),
                                DiscountAmount = calculateDiscount s rt req (b * c * a * k
            * (if IsDynamicRatesEnabled (flags s) then calculateDynamicMultiplier s rt req else 1))\<rparr>\<rparr>"
  using assms by (simp add: CalculateQuote_def Let_def)

lemma lookups_after_base_rate:
  assumes "GetBaseRateForPolicy r pt = Inr b"
  shows "\<exists>c a k. GetCoverageMultiplier r pt amt = Inr c \<and> GetAgeMultiplier r pt age = Inr a
           \<and> GetRiskMultiplier r pt risk = Inr k"
proof -
  from base_rate_ok [OF assms] obtain rules rates
    where r: "pricingRules r = Some rules" "BaseRates rules pt = Some rates" by blast
  from age_total [OF r] obtain a where "GetAgeMultiplier r pt age = Inr a" by blast
  with coverage_total [OF r] risk_total [OF r] show ?thesis by blast
qed

lemma example_loyalty_5:
  "getLoyaltyDiscount (example_runtime m) 5 (example_discounts\<lparr>Discounts_MultiPolicy := x, PaperlessBilling := y\<rparr>) = 0.12"
  by (simp add: getLoyaltyDiscount_def example_runtime_def example_discounts_def Sscanf_eval)

section \<open>The loyalty loop computes a maximum\<close>

lemma finite_applicable: "finite (applicable tbl ks years)"
proof -
  have "applicable tbl ks years \<subseteq> (\<lambda>k. the (tbl k)) ` set ks"
    by (auto simp: applicable_def image_iff) (metis option.sel)
  then show ?thesis by (rule finite_subset) simp
qed

lemma applicable_Cons:
  "applicable tbl (k # ks) years =
     (case tbl k of
        None \<Rightarrow> applicable tbl ks years
      | Some f \<Rightarrow> if scan_requiredYears k \<le> years then insert f (applicable tbl ks years)
                  else applicable tbl ks years)"
  by (auto simp: applicable_def split: option.splits)

lemma Max_insert_max:
  fixes a :: real
  assumes "finite A"
  shows "Max (insert (max a f) A) = Max (insert a (insert f A))"
proof (cases "A = {}")
  case True
  then show ?thesis by (simp add: max.commute)
next
  case False
  with assms show ?thesis by (simp add: max.assoc)
qed

lemma getLoyaltyDiscount_loop_Max:
  "getLoyaltyDiscount_loop years tbl ks acc = Max (insert acc (applicable tbl ks years))"
proof (induction ks arbitrary: acc)
  case Nil
  then show ?case by (simp add: applicable_def)
next
  case (Cons k ks)
  show ?case
  proof (cases "tbl k")
    case None
    then show ?thesis by (simp add: Cons.IH applicable_Cons)
  next
    case (Some f)
    show ?thesis
    proof (cases "scan_requiredYears k \<le> years")
      case True
      have "(if f > acc then f else acc) = max acc f" by (simp add: max_def)
      with True Some show ?thesis
        by (simp add: Cons.IH applicable_Cons Max_insert_max [OF finite_applicable])
    next
      case False
      with Some show ?thesis by (simp add: Cons.IH applicable_Cons)
    qed
  qed
qed

lemma applicable_range_order:
  "range_order tbl ks \<Longrightarrow>
     applicable tbl ks years = {f. \<exists>k. tbl k = Some f \<and> scan_requiredYears k \<le> years}"
  by (auto simp: applicable_def range_order_def)

lemma getLoyaltyDiscount_Max:
  assumes "range_order (Discounts_LoyaltyYears d) (loyalty_order rt)"
  shows "getLoyaltyDiscount rt years d =
           Max (insert 0 {f. \<exists>k. Discounts_LoyaltyYears d k = Some f \<and> scan_requiredYears k \<le> years})"
  by (simp add: getLoyaltyDiscount_def getLoyaltyDiscount_loop_Max applicable_range_order [OF assms])

lemma calculateDiscount_fractions:
  assumes "GetDiscounts (repo s) = Some d"
    and "range_order (Discounts_LoyaltyYears d) (loyalty_order rt)"
  shows "calculateDiscount s rt req adjustedRate = adjustedRate * discountFractions d req"
  using assms(1)
  by (simp add: calculateDiscount_eq discountFractions_def loyaltyFraction_def
        getLoyaltyDiscount_Max [OF assms(2)] distrib_left)


section \<open>What a quote depends on\<close>


lemma example_loyalty_plain:
  "getLoyaltyDiscount (example_runtime m) 5 example_discounts = 0.12"
  by (simp add: getLoyaltyDiscount_def example_runtime_def example_discounts_def Sscanf_eval)

lemma calculateDynamicMultiplier_quarter:
  "getCurrentQuarter (now_month rt1) = getCurrentQuarter (now_month rt2) \<Longrightarrow>
     calculateDynamicMultiplier s rt1 req = calculateDynamicMultiplier s rt2 req"
  by (simp add: calculateDynamicMultiplier_eq split: option.splits)

lemma calculateDiscount_order:
  assumes "runtime_ok s rt1" and "runtime_ok s rt2"
  shows "calculateDiscount s rt1 req a = calculateDiscount s rt2 req a"
proof (cases "pricingRules (repo s)")
  case None
  then show ?thesis by (simp add: calculateDiscount_eq GetDiscounts_def)
next
  case (Some rules)
  then have g: "GetDiscounts (repo s) = Some (Rules_Discounts rules)"
    by (simp add: GetDiscounts_def)
  from assms Some have
    "range_order (Discounts_LoyaltyYears (Rules_Discounts rules)) (loyalty_order rt1)"
    "range_order (Discounts_LoyaltyYears (Rules_Discounts rules)) (loyalty_order rt2)"
    by (simp_all add: runtime_ok_def)
  then show ?thesis
    by (simp add: calculateDiscount_fractions [OF g])
qed

lemma amounts_CalculateQuote:
  "amounts (CalculateQuote s rt req) =
     (case validateRequest req of
        Some err \<Rightarrow> Inl err
      | None \<Rightarrow>
     (case GetBaseRateForPolicy (repo s) (PolicyType req) of
        Inl err \<Rightarrow> Inl (FailedBaseRate err)
      | Inr b \<Rightarrow>
     (case GetCoverageMultiplier (repo s) (PolicyType req) (CoverageAmount req) of
        Inl err \<Rightarrow> Inl (FailedCoverageMultiplier err)
      | Inr c \<Rightarrow>
     (case GetAgeMultiplier (repo s) (PolicyType req) (CustomerAge req) of
        Inl err \<Rightarrow> Inl (FailedAgeMultiplier err)
      | Inr a \<Rightarrow>
     (case GetRiskMultiplier (repo s) (PolicyType req) (RiskScore req) of
        Inl err \<Rightarrow> Inl (FailedRiskMultiplier err)
      | Inr k \<Rightarrow>
          (let basePremium = b * c * a * k;
               adjustedRate = basePremium
                 * (if IsDynamicRatesEnabled (flags s) then calculateDynamicMultiplier s rt req else 1);
               discount = calculateDiscount s rt req adjustedRate
           in Inr (basePremium, adjustedRate, discount, adjustedRate - discount)))))))"
  by (simp add: CalculateQuote_def amounts_def Let_def split: option.splits sum.splits)

lemma example_quote_amounts:
  assumes "calculateDynamicMultiplier (example_service True) (example_runtime m) example_request = dm"
  shows "amounts (CalculateQuote (example_service True) (example_runtime m) example_request)
           = Inr (1240, 1240 * dm, 1240 * dm * 0.3, 1240 * dm - 1240 * dm * 0.3)"
proof -
  have gd: "GetDiscounts (repo (example_service True)) = Some example_discounts"
    by (simp add: GetDiscounts_def example_service_def example_rules_def)
  have c: "calculateDiscount (example_service True) (example_runtime m) example_request a = a * 0.3" for a
    by (simp add: calculateDiscount_eq gd example_request_def example_loyalty_plain)
       (simp add: example_discounts_def algebra_simps)
  have v: "validateRequest example_request = None"
    by (simp add: validateRequest_def example_request_def)
  have b: "GetBaseRateForPolicy (repo (example_service True)) (PolicyType example_request) = Inr 800"
    by (simp add: GetBaseRateForPolicy_def example_defs)
  have l: "GetCoverageMultiplier (repo (example_service True)) (PolicyType example_request)
              (CoverageAmount example_request) = Inr 1.55"
       "GetAgeMultiplier (repo (example_service True)) (PolicyType example_request)
              (CustomerAge example_request) = Inr 1"
       "GetRiskMultiplier (repo (example_service True)) (PolicyType example_request)
              (RiskScore example_request) = Inr 1"
    by (simp_all add: repo_defs example_defs Sprintf_eval ageRange_def)
  have fl: "IsDynamicRatesEnabled (flags (example_service True))"
    by (simp add: IsDynamicRatesEnabled_def example_service_def)
  show ?thesis
    by (simp add: amounts_CalculateQuote v b l fl assms c)
qed

lemma map_filter_present:
  "set ks \<subseteq> dom m \<Longrightarrow>
     List.map_filter (\<lambda>k. case m k of None \<Rightarrow> None | Some v \<Rightarrow> Some (g k v)) ks
       = map (\<lambda>k. g k (the (m k))) ks"
  by (induction ks) (auto simp: map_filter_simps split: option.splits)

lemma CalculateQuote_steps_frame: "CalculateQuote_steps s calls = s"
  by (induction calls arbitrary: s) (auto simp: CalculateQuote_step_def)

section \<open>Validation\<close>

text \<open>
  C3. Validation rejects a request exactly when its policy type is not auto, home or
  life, or its coverage amount is at most 0, or its age is outside 18..120, or its risk
  score is outside 1..5. A rejected request makes \<open>CalculateQuote\<close> return that error
  whatever the service holds and whatever the runtime supplies, so no table is looked
  at. On a request that is otherwise valid, the ages from 18 to 120 are accepted and
  every other age is rejected with the age error. The error is always one of the four
  that \<open>validateRequest\<close> builds.
\<close>

theorem validation_exact:
  "(validateRequest req \<noteq> None \<longleftrightarrow>
      (PolicyType req \<notin> {''auto'', ''home'', ''life''} \<or> CoverageAmount req \<le> 0
       \<or> CustomerAge req < 18 \<or> 120 < CustomerAge req
       \<or> RiskScore req < 1 \<or> 5 < RiskScore req))
   \<and> (\<forall>e. validateRequest req = Some e \<longrightarrow> (\<forall>s rt. CalculateQuote s rt req = Inl e))
   \<and> (validateRequest req = None \<longrightarrow>
        (\<forall>a. validateRequest (req\<lparr>CustomerAge := a\<rparr>) =
               (if 18 \<le> a \<and> a \<le> 120 then None else Some AgeOutOfRange)))
   \<and> (\<forall>e. validateRequest req = Some e \<longrightarrow>
          e \<in> {InvalidPolicyType (PolicyType req), CoverageNotPositive, AgeOutOfRange, RiskOutOfRange})"
  by (auto simp: validateRequest_def CalculateQuote_def split: if_splits)

theorem validation_exact_witness:
  "validateRequest example_request = None
   \<and> validateRequest (example_request\<lparr>CustomerAge := 18\<rparr>) = None
   \<and> validateRequest (example_request\<lparr>CustomerAge := 120\<rparr>) = None
   \<and> validateRequest (example_request\<lparr>CustomerAge := 17\<rparr>) = Some AgeOutOfRange
   \<and> validateRequest (example_request\<lparr>CustomerAge := 121\<rparr>) = Some AgeOutOfRange
   \<and> CalculateQuote (example_service True) (example_runtime 2)
        (example_request\<lparr>CustomerAge := 17\<rparr>) = Inl AgeOutOfRange
   \<and> CalculateQuote (example_service True) (example_runtime 2)
        (example_request\<lparr>CustomerAge := 121\<rparr>) = Inl AgeOutOfRange"
proof -
  have ok: "validateRequest example_request = None"
    by (simp add: validateRequest_def example_request_def)
  note ages = validation_exact [of example_request, THEN conjunct2, THEN conjunct2, THEN conjunct1,
      rule_format, OF ok]
  have a17: "validateRequest (example_request\<lparr>CustomerAge := 17\<rparr>) = Some AgeOutOfRange"
    using ages [of 17] by simp
  have a121: "validateRequest (example_request\<lparr>CustomerAge := 121\<rparr>) = Some AgeOutOfRange"
    using ages [of 121] by simp
  note rej17 = validation_exact [of "example_request\<lparr>CustomerAge := 17\<rparr>",
      THEN conjunct2, THEN conjunct1, rule_format, OF a17]
  note rej121 = validation_exact [of "example_request\<lparr>CustomerAge := 121\<rparr>",
      THEN conjunct2, THEN conjunct1, rule_format, OF a121]
  show ?thesis
    using ok ages [of 18] ages [of 120] a17 a121
      rej17 [of "example_service True" "example_runtime 2"]
      rej121 [of "example_service True" "example_runtime 2"]
    by simp
qed

section \<open>The premium formula\<close>

text \<open>
  C1. For a request that passes validation and whose policy type has a base rate,
  \<open>CalculateQuote\<close> returns a quote whose base premium is the base rate times the
  coverage, age and risk multipliers that the repository resolves, whose adjusted rate
  is the base premium times the dynamic multiplier, and whose final premium is the
  adjusted rate minus the discount. Nothing clamps the result: the final premium is
  negative exactly when the discount exceeds the adjusted rate.
\<close>

theorem premium_formula:
  assumes "validateRequest req = None"
    and "GetBaseRateForPolicy (repo s) (PolicyType req) = Inr baseRate"
  shows "\<exists>q f. CalculateQuote s rt req = Inr q \<and> Quote_Factors q = Some f
           \<and> BaseMultiplier f = baseRate
           \<and> GetCoverageMultiplier (repo s) (PolicyType req) (CoverageAmount req) = Inr (CoverageMultiplier f)
           \<and> GetAgeMultiplier (repo s) (PolicyType req) (CustomerAge req) = Inr (Factors_AgeMultiplier f)
           \<and> GetRiskMultiplier (repo s) (PolicyType req) (RiskScore req) = Inr (Factors_RiskMultiplier f)
           \<and> DynamicMultiplier f =
               (if IsDynamicRatesEnabled (flags s) then calculateDynamicMultiplier s rt req else 1)
           \<and> BaseRate q = baseRate * CoverageMultiplier f * Factors_AgeMultiplier f * Factors_RiskMultiplier f
           \<and> AdjustedRate q = BaseRate q * DynamicMultiplier f
           \<and> Discount q = calculateDiscount s rt req (AdjustedRate q)
           \<and> FinalPremium q = AdjustedRate q - Discount q
           \<and> (FinalPremium q < 0 \<longleftrightarrow> AdjustedRate q < Discount q)"
proof -
  from lookups_after_base_rate [OF assms(2)] obtain c a k where
    l: "GetCoverageMultiplier (repo s) (PolicyType req) (CoverageAmount req) = Inr c"
       "GetAgeMultiplier (repo s) (PolicyType req) (CustomerAge req) = Inr a"
       "GetRiskMultiplier (repo s) (PolicyType req) (RiskScore req) = Inr k"
    by blast
  show ?thesis
    by (simp add: CalculateQuote_ok [OF assms l] l)
qed

theorem premium_formula_witness:
  "validateRequest example_request = None
   \<and> GetBaseRateForPolicy (repo steep_service) (PolicyType example_request) = Inr 800
   \<and> amounts (CalculateQuote steep_service (example_runtime 2) example_request)
       = Inr (1240, 1240, 1512.8, - 272.8)"
proof -
  have h1: "validateRequest example_request = None"
    by (simp add: validateRequest_def example_request_def)
  have h2: "GetBaseRateForPolicy (repo steep_service) (PolicyType example_request) = Inr 800"
    by (simp add: GetBaseRateForPolicy_def steep_service_def example_defs)
  from premium_formula [OF h1 h2, of "example_runtime 2"] obtain q f where
    "CalculateQuote steep_service (example_runtime 2) example_request = Inr q
     \<and> Quote_Factors q = Some f
     \<and> BaseMultiplier f = 800
     \<and> GetCoverageMultiplier (repo steep_service) (PolicyType example_request)
              (CoverageAmount example_request) = Inr (CoverageMultiplier f)
     \<and> GetAgeMultiplier (repo steep_service) (PolicyType example_request)
              (CustomerAge example_request) = Inr (Factors_AgeMultiplier f)
     \<and> GetRiskMultiplier (repo steep_service) (PolicyType example_request)
              (RiskScore example_request) = Inr (Factors_RiskMultiplier f)
     \<and> DynamicMultiplier f =
              (if IsDynamicRatesEnabled (flags steep_service)
               then calculateDynamicMultiplier steep_service (example_runtime 2) example_request else 1)
     \<and> BaseRate q = 800 * CoverageMultiplier f * Factors_AgeMultiplier f * Factors_RiskMultiplier f
     \<and> AdjustedRate q = BaseRate q * DynamicMultiplier f
     \<and> Discount q = calculateDiscount steep_service (example_runtime 2) example_request (AdjustedRate q)
     \<and> FinalPremium q = AdjustedRate q - Discount q
     \<and> (FinalPremium q < 0 \<longleftrightarrow> AdjustedRate q < Discount q)"
    by (elim exE)
  then have
    q: "CalculateQuote steep_service (example_runtime 2) example_request = Inr q"
    and c: "GetCoverageMultiplier (repo steep_service) (PolicyType example_request)
              (CoverageAmount example_request) = Inr (CoverageMultiplier f)"
    and a: "GetAgeMultiplier (repo steep_service) (PolicyType example_request)
              (CustomerAge example_request) = Inr (Factors_AgeMultiplier f)"
    and k: "GetRiskMultiplier (repo steep_service) (PolicyType example_request)
              (RiskScore example_request) = Inr (Factors_RiskMultiplier f)"
    and d: "DynamicMultiplier f =
              (if IsDynamicRatesEnabled (flags steep_service)
               then calculateDynamicMultiplier steep_service (example_runtime 2) example_request else 1)"
    and b: "BaseRate q = 800 * CoverageMultiplier f * Factors_AgeMultiplier f * Factors_RiskMultiplier f"
    and ar: "AdjustedRate q = BaseRate q * DynamicMultiplier f"
    and di: "Discount q = calculateDiscount steep_service (example_runtime 2) example_request (AdjustedRate q)"
    and fp: "FinalPremium q = AdjustedRate q - Discount q"
    by blast+
  have c': "CoverageMultiplier f = 1.55"
    using c by (simp add: GetCoverageMultiplier_def steep_service_def example_defs Sprintf_eval)
  have a': "Factors_AgeMultiplier f = 1"
    using a by (simp add: GetAgeMultiplier_def steep_service_def example_defs ageRange_def)
  have k': "Factors_RiskMultiplier f = 1"
    using k by (simp add: GetRiskMultiplier_def steep_service_def example_defs Sprintf_eval)
  have d': "DynamicMultiplier f = 1"
    using d by (simp add: IsDynamicRatesEnabled_def steep_service_def)
  have b': "BaseRate q = 1240" using b c' a' k' by simp
  have ar': "AdjustedRate q = 1240" using ar b' d' by simp
  have di': "Discount q = 1512.8"
    unfolding di ar'
    by (simp add: calculateDiscount_eq GetDiscounts_def steep_service_def example_rules_def
          example_loyalty_5 example_request_def)
  have fp': "FinalPremium q = - 272.8" using fp ar' di' by simp
  show ?thesis using h1 h2 q b' ar' di' fp' by (simp add: amounts_def)
qed

section \<open>Age brackets\<close>

text \<open>
  C6. For a configured policy type and an age from 18 to 120, \<open>GetAgeMultiplier\<close>
  returns what the specification describes: the age falls in exactly one of the five
  brackets, the entry of that bracket is used when there is one, a home policy in one of
  the two youngest brackets otherwise uses the entry of the combined bracket 18-34, and
  the result is 1 when nothing matches. For a policy type other than home the result is
  the bracket's entry or 1, whatever the table holds under the combined key.
\<close>

theorem age_multiplier_brackets:
  assumes "pricingRules r = Some rules" and "BaseRates rules policyType = Some rates"
    and "18 \<le> age" and "age \<le> 120"
  shows "GetAgeMultiplier r policyType age = Inr (spec_resolveAgeMultiplier rates policyType age)
         \<and> spec_ageBracket age \<in> {''18-24'', ''25-34'', ''35-49'', ''50-64'', ''65+''}
         \<and> (spec_ageBracket age = ''18-24'' \<longleftrightarrow> age \<le> 24)
         \<and> (spec_ageBracket age = ''25-34'' \<longleftrightarrow> 25 \<le> age \<and> age \<le> 34)
         \<and> (spec_ageBracket age = ''35-49'' \<longleftrightarrow> 35 \<le> age \<and> age \<le> 49)
         \<and> (spec_ageBracket age = ''50-64'' \<longleftrightarrow> 50 \<le> age \<and> age \<le> 64)
         \<and> (spec_ageBracket age = ''65+'' \<longleftrightarrow> 65 \<le> age)
         \<and> (policyType \<noteq> ''home'' \<longrightarrow>
              GetAgeMultiplier r policyType age = Inr (neutral (AgeMultiplier rates (spec_ageBracket age))))"
proof -
  have "GetAgeMultiplier r policyType age = Inr (spec_resolveAgeMultiplier rates policyType age)"
    using assms
    by (auto simp: GetAgeMultiplier_def ageRange_spec spec_resolveAgeMultiplier_def altRanges_def
             spec_ageBracket_def split: option.splits)
  moreover have "policyType \<noteq> ''home'' \<longrightarrow>
      spec_resolveAgeMultiplier rates policyType age = neutral (AgeMultiplier rates (spec_ageBracket age))"
    by (simp add: spec_resolveAgeMultiplier_def neutral_def split: option.splits)
  moreover have "spec_ageBracket age \<in> {''18-24'', ''25-34'', ''35-49'', ''50-64'', ''65+''}"
    by (simp add: spec_ageBracket_def)
  moreover have "(spec_ageBracket age = ''18-24'' \<longleftrightarrow> age \<le> 24)
         \<and> (spec_ageBracket age = ''25-34'' \<longleftrightarrow> 25 \<le> age \<and> age \<le> 34)
         \<and> (spec_ageBracket age = ''35-49'' \<longleftrightarrow> 35 \<le> age \<and> age \<le> 49)
         \<and> (spec_ageBracket age = ''50-64'' \<longleftrightarrow> 50 \<le> age \<and> age \<le> 64)
         \<and> (spec_ageBracket age = ''65+'' \<longleftrightarrow> 65 \<le> age)"
    by (simp add: spec_ageBracket_def)
  ultimately show ?thesis by simp
qed

theorem age_multiplier_brackets_witness:
  "GetAgeMultiplier (repo (example_service True)) ''auto'' 20 = Inr 1.5
   \<and> GetAgeMultiplier (repo (example_service True)) ''auto'' 30 = Inr 1
   \<and> GetAgeMultiplier (repo (example_service True)) ''home'' 18 = Inr 1.25
   \<and> GetAgeMultiplier (repo (example_service True)) ''home'' 30 = Inr 1.25
   \<and> GetAgeMultiplier (repo (example_service True)) ''home'' 40 = Inr 1
   \<and> GetAgeMultiplier (repo (example_service True)) ''home'' 120 = Inr 1"
proof -
  have h1: "pricingRules (repo (example_service True)) = Some example_rules"
    by (simp add: example_service_def)
  have ha: "BaseRates example_rules ''auto'' = Some auto_rates"
    by (simp add: example_rules_def)
  have hh: "BaseRates example_rules ''home'' = Some home_rates"
    by (simp add: example_rules_def)
  note au = age_multiplier_brackets [OF h1 ha, THEN conjunct1]
  note ho = age_multiplier_brackets [OF h1 hh, THEN conjunct1]
  have "spec_resolveAgeMultiplier auto_rates ''auto'' 20 = 1.5"
       "spec_resolveAgeMultiplier auto_rates ''auto'' 30 = 1"
       "spec_resolveAgeMultiplier home_rates ''home'' 18 = 1.25"
       "spec_resolveAgeMultiplier home_rates ''home'' 30 = 1.25"
       "spec_resolveAgeMultiplier home_rates ''home'' 40 = 1"
       "spec_resolveAgeMultiplier home_rates ''home'' 120 = 1"
    by (simp_all add: spec_resolveAgeMultiplier_def spec_ageBracket_def auto_rates_def home_rates_def)
  then show ?thesis
    using au [of 20] au [of 30] ho [of 18] ho [of 30] ho [of 40] ho [of 120] by simp
qed

section \<open>Coverage tiers\<close>

text \<open>
  C7. For a configured policy type, \<open>GetCoverageMultiplier\<close> returns the entry stored
  under the decimal string of the coverage amount and never an error; when that string
  is not a key of the coverage table the result is exactly 1. There is no interpolation:
  an amount between two tiers gets 1, not a value between the tiers' multipliers.
\<close>

theorem coverage_exact_match:
  assumes "pricingRules r = Some rules" and "BaseRates rules policyType = Some rates"
  shows "GetCoverageMultiplier r policyType coverageAmount =
           Inr (neutral (Coverage rates (Sprintf_d coverageAmount)))
         \<and> (Sprintf_d coverageAmount \<notin> dom (Coverage rates) \<longrightarrow>
              GetCoverageMultiplier r policyType coverageAmount = Inr 1)"
  using assms by (auto simp: GetCoverageMultiplier_def neutral_def split: option.splits)

theorem coverage_exact_match_witness:
  "pricingRules (repo (example_service True)) = Some example_rules
   \<and> BaseRates example_rules ''auto'' = Some auto_rates
   \<and> Sprintf_d 275000 = ''275000''
   \<and> Sprintf_d 275000 \<notin> dom (Coverage auto_rates)
   \<and> GetCoverageMultiplier (repo (example_service True)) ''auto'' 250000 = Inr 1
   \<and> GetCoverageMultiplier (repo (example_service True)) ''auto'' 275000 = Inr 1
   \<and> GetCoverageMultiplier (repo (example_service True)) ''auto'' 300000 = Inr 1.15"
proof -
  have h1: "pricingRules (repo (example_service True)) = Some example_rules"
    by (simp add: example_service_def)
  have h2: "BaseRates example_rules ''auto'' = Some auto_rates"
    by (simp add: example_rules_def)
  have s1: "Sprintf_d 275000 = ''275000''" by (simp add: Sprintf_eval)
  have s2: "Sprintf_d 250000 = ''250000''" by (simp add: Sprintf_eval)
  have s3: "Sprintf_d 300000 = ''300000''" by (simp add: Sprintf_eval)
  have miss: "Sprintf_d 275000 \<notin> dom (Coverage auto_rates)"
    by (simp add: s1 auto_rates_def)
  note cov = coverage_exact_match [OF h1 h2]
  have a: "GetCoverageMultiplier (repo (example_service True)) ''auto'' 275000 = Inr 1"
    by (rule cov [of 275000, THEN conjunct2, rule_format, OF miss])
  have b: "GetCoverageMultiplier (repo (example_service True)) ''auto'' 250000 = Inr 1"
    using cov [of 250000] by (simp add: s2 auto_rates_def neutral_def)
  have c: "GetCoverageMultiplier (repo (example_service True)) ''auto'' 300000 = Inr 1.15"
    using cov [of 300000] by (simp add: s3 auto_rates_def neutral_def)
  show ?thesis using h1 h2 s1 miss a b c by simp
qed

section \<open>Claims history\<close>

text \<open>
  C10. Validation does not look at the claims count. Every count other than 0, 1 and 2
  is mapped to the key 3+, negative counts included, so a request with a negative
  count gets the same dynamic multiplier and the same amounts as the same request with
  three or more claims.
\<close>

theorem claims_history_unvalidated:
  "validateRequest (req\<lparr>ClaimsHistory := c\<rparr>) = validateRequest req
   \<and> (getClaimsHistoryKey c = ''3+'' \<longleftrightarrow> c \<notin> {0, 1, 2})
   \<and> (c < 0 \<and> 3 \<le> c' \<longrightarrow>
        calculateDynamicMultiplier s rt (req\<lparr>ClaimsHistory := c\<rparr>)
          = calculateDynamicMultiplier s rt (req\<lparr>ClaimsHistory := c'\<rparr>)
        \<and> amounts (CalculateQuote s rt (req\<lparr>ClaimsHistory := c\<rparr>))
          = amounts (CalculateQuote s rt (req\<lparr>ClaimsHistory := c'\<rparr>)))"
proof -
  have v: "\<And>x. validateRequest (req\<lparr>ClaimsHistory := x\<rparr>) = validateRequest req"
    by (simp add: validateRequest_def)
  have k: "getClaimsHistoryKey c = ''3+'' \<longleftrightarrow> c \<notin> {0, 1, 2}"
    by (simp add: getClaimsHistoryKey_def)
  have d: "calculateDynamicMultiplier s rt (req\<lparr>ClaimsHistory := c\<rparr>)
          = calculateDynamicMultiplier s rt (req\<lparr>ClaimsHistory := c'\<rparr>)" if "c < 0" "3 \<le> c'"
  proof -
    have "getClaimsHistoryKey c = getClaimsHistoryKey c'"
      using that by (simp add: getClaimsHistoryKey_def)
    then show ?thesis by (simp add: calculateDynamicMultiplier_eq split: option.splits)
  qed
  have disc: "\<And>x a. calculateDiscount s rt (req\<lparr>ClaimsHistory := x\<rparr>) a = calculateDiscount s rt req a"
    by (simp add: calculateDiscount_def Let_def split: option.splits)
  have q: "amounts (CalculateQuote s rt (req\<lparr>ClaimsHistory := c\<rparr>))
          = amounts (CalculateQuote s rt (req\<lparr>ClaimsHistory := c'\<rparr>))" if "c < 0" "3 \<le> c'"
    using d [OF that]
    by (simp add: CalculateQuote_def v disc amounts_def Let_def split: option.splits sum.splits)
  show ?thesis using v k d q by blast
qed

theorem claims_history_unvalidated_witness:
  "validateRequest (example_request\<lparr>ClaimsHistory := - 1\<rparr>) = None
   \<and> getClaimsHistoryKey (- 1) = ''3+''
   \<and> calculateDynamicMultiplier (example_service True) (example_runtime 2)
        (example_request\<lparr>ClaimsHistory := - 1\<rparr>) = 1.235
   \<and> calculateDynamicMultiplier (example_service True) (example_runtime 2)
        (example_request\<lparr>ClaimsHistory := 5\<rparr>) = 1.235"
proof -
  note t = claims_history_unvalidated [where req = example_request and c = "- 1" and c' = 5
      and s = "example_service True" and rt = "example_runtime 2"]
  have v: "validateRequest example_request = None"
    by (simp add: validateRequest_def example_request_def)
  have five: "calculateDynamicMultiplier (example_service True) (example_runtime 2)
        (example_request\<lparr>ClaimsHistory := 5\<rparr>) = 1.235"
    by (simp add: calculateDynamicMultiplier_eq GetDynamicPricing_def example_defs neutral_def
          getCurrentQuarter_def getClaimsHistoryKey_def)
  show ?thesis using t v five by simp
qed

section \<open>Discounts\<close>




section \<open>Dynamic pricing\<close>



section \<open>Failures after validation\<close>

text \<open>
  C5. For a request that passes validation: when the base rate resolves,
  \<open>CalculateQuote\<close> returns a quote whose factors are all populated with the resolved
  values; every error it returns is the base-rate error, and with the rules loaded it
  fails exactly when the policy type has no base-rate entry. Once the policy type has
  an entry, the coverage, age and risk lookups return a value for every argument: the
  table entry, or 1 on a miss. The discount and the dynamic multiplier are plain
  numbers (see \<open>calculateDiscount_eq\<close> and \<open>calculateDynamicMultiplier_eq\<close>).
\<close>

theorem only_base_rate_fails:
  assumes "validateRequest req = None"
  shows "(\<forall>b. GetBaseRateForPolicy (repo s) (PolicyType req) = Inr b \<longrightarrow>
            (\<exists>q f c a k. CalculateQuote s rt req = Inr q \<and> Quote_Factors q = Some f
               \<and> GetCoverageMultiplier (repo s) (PolicyType req) (CoverageAmount req) = Inr c
               \<and> GetAgeMultiplier (repo s) (PolicyType req) (CustomerAge req) = Inr a
               \<and> GetRiskMultiplier (repo s) (PolicyType req) (RiskScore req) = Inr k
               \<and> f = \<lparr>BaseMultiplier = b, CoverageMultiplier = c, Factors_AgeMultiplier = a,
                       Factors_RiskMultiplier = k,
                       DynamicMultiplier = (if IsDynamicRatesEnabled (flags s)
                                            then calculateDynamicMultiplier s rt req else 1),
                       DiscountAmount = Discount q\<rparr>))
         \<and> (\<forall>e. CalculateQuote s rt req = Inl e \<longrightarrow>
              (\<exists>e'. GetBaseRateForPolicy (repo s) (PolicyType req) = Inl e' \<and> e = FailedBaseRate e'
                 \<and> (e' = RulesNotLoaded \<or> e' = PolicyTypeNotFound (PolicyType req))))
         \<and> (\<forall>rules. pricingRules (repo s) = Some rules \<longrightarrow>
              ((\<exists>e. CalculateQuote s rt req = Inl e) \<longleftrightarrow> BaseRates rules (PolicyType req) = None))
         \<and> (\<forall>rules rates. pricingRules (repo s) = Some rules \<and> BaseRates rules pt = Some rates \<longrightarrow>
              GetCoverageMultiplier (repo s) pt amt = Inr (neutral (Coverage rates (Sprintf_d amt)))
              \<and> GetRiskMultiplier (repo s) pt risk = Inr (neutral (RiskMultiplier rates (Sprintf_d risk)))
              \<and> (\<exists>a. GetAgeMultiplier (repo s) pt age = Inr a \<and> (a = 1 \<or> a \<in> ran (AgeMultiplier rates))))"
proof -
  have ok: "\<exists>q f c a k. CalculateQuote s rt req = Inr q \<and> Quote_Factors q = Some f
               \<and> GetCoverageMultiplier (repo s) (PolicyType req) (CoverageAmount req) = Inr c
               \<and> GetAgeMultiplier (repo s) (PolicyType req) (CustomerAge req) = Inr a
               \<and> GetRiskMultiplier (repo s) (PolicyType req) (RiskScore req) = Inr k
               \<and> f = \<lparr>BaseMultiplier = b, CoverageMultiplier = c, Factors_AgeMultiplier = a,
                       Factors_RiskMultiplier = k,
                       DynamicMultiplier = (if IsDynamicRatesEnabled (flags s)
                                            then calculateDynamicMultiplier s rt req else 1),
                       DiscountAmount = Discount q\<rparr>"
    if b: "GetBaseRateForPolicy (repo s) (PolicyType req) = Inr b" for b
  proof -
    from lookups_after_base_rate [OF b] obtain c a k where
      l: "GetCoverageMultiplier (repo s) (PolicyType req) (CoverageAmount req) = Inr c"
         "GetAgeMultiplier (repo s) (PolicyType req) (CustomerAge req) = Inr a"
         "GetRiskMultiplier (repo s) (PolicyType req) (RiskScore req) = Inr k"
      by blast
    show ?thesis by (simp add: CalculateQuote_ok [OF assms b l] l)
  qed
  have fail: "\<exists>e'. GetBaseRateForPolicy (repo s) (PolicyType req) = Inl e' \<and> e = FailedBaseRate e'
                 \<and> (e' = RulesNotLoaded \<or> e' = PolicyTypeNotFound (PolicyType req))"
    if e: "CalculateQuote s rt req = Inl e" for e
  proof (cases "GetBaseRateForPolicy (repo s) (PolicyType req)")
    case (Inl e')
    with e assms have "e = FailedBaseRate e'" by (simp add: CalculateQuote_def)
    with Inl base_rate_fail [OF Inl] show ?thesis by simp
  next
    case (Inr b)
    from ok [OF Inr] e show ?thesis by auto
  qed
  have iff: "(\<exists>e. CalculateQuote s rt req = Inl e) \<longleftrightarrow> BaseRates rules (PolicyType req) = None"
    if r: "pricingRules (repo s) = Some rules" for rules
  proof (cases "BaseRates rules (PolicyType req)")
    case None
    with r assms show ?thesis by (simp add: CalculateQuote_def GetBaseRateForPolicy_def)
  next
    case (Some rates)
    with r have "GetBaseRateForPolicy (repo s) (PolicyType req) = Inr (Base rates)"
      by (simp add: GetBaseRateForPolicy_def)
    from ok [OF this] Some show ?thesis by auto
  qed
  from ok fail iff coverage_total risk_total age_total show ?thesis by blast
qed

theorem only_base_rate_fails_witness:
  "validateRequest example_request = None
   \<and> validateRequest (example_request\<lparr>PolicyType := ''life''\<rparr>) = None
   \<and> GetBaseRateForPolicy (repo (example_service True)) ''auto'' = Inr 800
   \<and> (\<exists>q f. CalculateQuote (example_service True) (example_runtime 2) example_request = Inr q
         \<and> Quote_Factors q = Some f \<and> BaseMultiplier f = 800 \<and> CoverageMultiplier f = 1.55
         \<and> Factors_AgeMultiplier f = 1 \<and> Factors_RiskMultiplier f = 1)
   \<and> CalculateQuote (example_service True) (example_runtime 2)
        (example_request\<lparr>PolicyType := ''life''\<rparr>) = Inl (FailedBaseRate (PolicyTypeNotFound ''life''))"
proof -
  have v: "validateRequest example_request = None"
    by (simp add: validateRequest_def example_request_def)
  have v': "validateRequest (example_request\<lparr>PolicyType := ''life''\<rparr>) = None"
    by (simp add: validateRequest_def example_request_def)
  have b: "GetBaseRateForPolicy (repo (example_service True)) (PolicyType example_request) = Inr 800"
    by (simp add: GetBaseRateForPolicy_def example_defs)
  have b': "GetBaseRateForPolicy (repo (example_service True)) ''auto'' = Inr 800"
    by (simp add: GetBaseRateForPolicy_def example_defs)
  have l: "GetCoverageMultiplier (repo (example_service True)) (PolicyType example_request)
              (CoverageAmount example_request) = Inr 1.55"
       "GetAgeMultiplier (repo (example_service True)) (PolicyType example_request)
              (CustomerAge example_request) = Inr 1"
       "GetRiskMultiplier (repo (example_service True)) (PolicyType example_request)
              (RiskScore example_request) = Inr 1"
    by (simp_all add: repo_defs example_defs Sprintf_eval ageRange_def)
  have good: "\<exists>q f. CalculateQuote (example_service True) (example_runtime 2) example_request = Inr q
         \<and> Quote_Factors q = Some f \<and> BaseMultiplier f = 800 \<and> CoverageMultiplier f = 1.55
         \<and> Factors_AgeMultiplier f = 1 \<and> Factors_RiskMultiplier f = 1"
    using only_base_rate_fails [OF v, of "example_service True" "example_runtime 2",
        THEN conjunct1, rule_format, OF b] l
    by auto
  have r: "pricingRules (repo (example_service True)) = Some example_rules"
    by (simp add: example_service_def)
  have n: "BaseRates example_rules (PolicyType (example_request\<lparr>PolicyType := ''life''\<rparr>)) = None"
    by (simp add: example_rules_def)
  from only_base_rate_fails [OF v', of "example_service True" "example_runtime 2",
        THEN conjunct2, THEN conjunct2, THEN conjunct1, rule_format, OF r] n
  obtain e where e: "CalculateQuote (example_service True) (example_runtime 2)
        (example_request\<lparr>PolicyType := ''life''\<rparr>) = Inl e"
    by blast
  from only_base_rate_fails [OF v', of "example_service True" "example_runtime 2",
        THEN conjunct2, THEN conjunct1, rule_format, OF e]
  have "e = FailedBaseRate (PolicyTypeNotFound ''life'')"
    by (auto simp: GetBaseRateForPolicy_def example_service_def example_rules_def)
  with e v v' b' good show ?thesis by simp
qed

section \<open>Reproducible amounts\<close>

text \<open>
  C8, as the code has it. Two calls with the same request on the same service (rules
  and flag) give the same base premium. They give the same adjusted rate, discount and
  final premium as well when both fall in the same calendar quarter, or when the
  dynamic-rates flag is off; the order in which the runtime enumerates the loyalty
  table does not matter. The quote id and the timestamps are not compared.
\<close>

theorem quote_reproducible:
  "map_sum id BaseRate (CalculateQuote s rt1 req) = map_sum id BaseRate (CalculateQuote s rt2 req)
   \<and> (runtime_ok s rt1 \<and> runtime_ok s rt2
        \<and> (getCurrentQuarter (now_month rt1) = getCurrentQuarter (now_month rt2)
            \<or> \<not> IsDynamicRatesEnabled (flags s))
       \<longrightarrow> amounts (CalculateQuote s rt1 req) = amounts (CalculateQuote s rt2 req))"
proof -
  have base: "map_sum id BaseRate (CalculateQuote s rt1 req) = map_sum id BaseRate (CalculateQuote s rt2 req)"
    by (simp add: CalculateQuote_def Let_def split: option.splits sum.splits)
  have "amounts (CalculateQuote s rt1 req) = amounts (CalculateQuote s rt2 req)"
    if ok: "runtime_ok s rt1" "runtime_ok s rt2"
      and q: "getCurrentQuarter (now_month rt1) = getCurrentQuarter (now_month rt2)
            \<or> \<not> IsDynamicRatesEnabled (flags s)"
  proof -
    have d: "(if IsDynamicRatesEnabled (flags s) then calculateDynamicMultiplier s rt1 req else 1)
           = (if IsDynamicRatesEnabled (flags s) then calculateDynamicMultiplier s rt2 req else 1)"
      using q calculateDynamicMultiplier_quarter [of rt1 rt2 s req] by auto
    show ?thesis
      unfolding amounts_CalculateQuote d calculateDiscount_order [OF ok] ..
  qed
  with base show ?thesis by blast
qed

theorem quote_reproducible_witness:
  "runtime_ok (example_service True) (example_runtime 1)
   \<and> runtime_ok (example_service True) later_runtime
   \<and> getCurrentQuarter (now_month (example_runtime 1)) = getCurrentQuarter (now_month later_runtime)
   \<and> amounts (CalculateQuote (example_service True) (example_runtime 1) example_request)
       = Inr (1240, 1060.2, 318.06, 742.14)
   \<and> amounts (CalculateQuote (example_service True) later_runtime example_request)
       = Inr (1240, 1060.2, 318.06, 742.14)"
proof -
  have ok1: "runtime_ok (example_service True) (example_runtime 1)"
    by (auto simp: runtime_ok_def range_order_def example_defs)
  have ok2: "runtime_ok (example_service True) later_runtime"
    by (auto simp: runtime_ok_def range_order_def later_runtime_def example_defs)
  have q: "getCurrentQuarter (now_month (example_runtime 1)) = getCurrentQuarter (now_month later_runtime)"
    by (simp add: getCurrentQuarter_def later_runtime_def example_runtime_def)
  have d: "calculateDynamicMultiplier (example_service True) (example_runtime 1) example_request = 0.855"
    by (simp add: calculateDynamicMultiplier_eq GetDynamicPricing_def example_defs neutral_def
          getCurrentQuarter_def getClaimsHistoryKey_def)
  note first = example_quote_amounts [OF d]
  from quote_reproducible [of "example_service True" "example_runtime 1" example_request later_runtime]
    ok1 ok2 q
  have "amounts (CalculateQuote (example_service True) (example_runtime 1) example_request)
      = amounts (CalculateQuote (example_service True) later_runtime example_request)"
    by blast
  with first ok1 ok2 q show ?thesis by simp
qed

text \<open>
  C8, as the specification states it, fails: the same request on the same service is
  priced differently in March and in April, because \<open>getCurrentQuarter\<close> reads the
  clock and the seasonality factor of the quarter enters the adjusted rate.
\<close>

theorem quote_quarter_counterexample:
  "example_runtime 4 = (example_runtime 3)\<lparr>now_month := 4\<rparr>
   \<and> runtime_ok (example_service True) (example_runtime 3)
   \<and> runtime_ok (example_service True) (example_runtime 4)
   \<and> amounts (CalculateQuote (example_service True) (example_runtime 3) example_request)
       = Inr (1240, 1060.2, 318.06, 742.14)
   \<and> amounts (CalculateQuote (example_service True) (example_runtime 4) example_request)
       = Inr (1240, 1116, 334.8, 781.2)
   \<and> amounts (CalculateQuote (example_service True) (example_runtime 3) example_request)
       \<noteq> amounts (CalculateQuote (example_service True) (example_runtime 4) example_request)"
proof -
  have ok: "runtime_ok (example_service True) (example_runtime m)" for m
    by (auto simp: runtime_ok_def range_order_def example_defs)
  have d3: "calculateDynamicMultiplier (example_service True) (example_runtime 3) example_request = 0.855"
    by (simp add: calculateDynamicMultiplier_eq GetDynamicPricing_def example_defs neutral_def
          getCurrentQuarter_def getClaimsHistoryKey_def)
  have d4: "calculateDynamicMultiplier (example_service True) (example_runtime 4) example_request = 0.9"
    by (simp add: calculateDynamicMultiplier_eq GetDynamicPricing_def example_defs neutral_def
          getCurrentQuarter_def getClaimsHistoryKey_def)
  have e: "example_runtime 4 = (example_runtime 3)\<lparr>now_month := 4\<rparr>"
    by (simp add: example_runtime_def)
  from e ok [of 3] ok [of 4] example_quote_amounts [OF d3] example_quote_amounts [OF d4]
  show ?thesis by simp
qed

section \<open>The rate table query\<close>

text \<open>
  C9. \<open>GetRates\<close> returns one entry for each configured policy type, in the order the
  runtime enumerates them, and each entry carries the policy type, its base rate and
  its coverage table as the rules hold them. \<open>CalculateQuote\<close> leaves the service as it
  was, so \<open>GetRates\<close> after any number of quote calls returns what it returned before.
\<close>

theorem rates_projection:
  assumes "pricingRules (repo s) = Some rules"
    and "range_order (BaseRates rules) (rates_order rt)"
  shows "map Rate_PolicyType (Rates (GetRates s rt)) = rates_order rt
         \<and> distinct (map Rate_PolicyType (Rates (GetRates s rt)))
         \<and> set (map Rate_PolicyType (Rates (GetRates s rt))) = dom (BaseRates rules)
         \<and> length (Rates (GetRates s rt)) = card (dom (BaseRates rules))
         \<and> (\<forall>r \<in> set (Rates (GetRates s rt)).
               \<exists>policyRates. BaseRates rules (Rate_PolicyType r) = Some policyRates
                 \<and> Rate_BaseRate r = Base policyRates \<and> Rate_Coverage r = Coverage policyRates)
         \<and> snd (CalculateQuote_step s rt' req) = s
         \<and> CalculateQuote_steps s calls = s
         \<and> GetRates (CalculateQuote_steps s calls) rt = GetRates s rt"
proof -
  from assms(2) have sub: "set (rates_order rt) \<subseteq> dom (BaseRates rules)"
    and d: "distinct (rates_order rt)" and eq: "set (rates_order rt) = dom (BaseRates rules)"
    by (simp_all add: range_order_def)
  have r: "Rates (GetRates s rt) =
      map (\<lambda>k. \<lparr>Rate_PolicyType = k, Rate_BaseRate = Base (the (BaseRates rules k)),
                 Rate_Coverage = Coverage (the (BaseRates rules k))\<rparr>) (rates_order rt)"
    using map_filter_present [OF sub, of "\<lambda>k v. \<lparr>Rate_PolicyType = k, Rate_BaseRate = Base v,
                 Rate_Coverage = Coverage v\<rparr>"] assms(1)
    by (simp add: GetRates_def GetAllRates_def)
  have names: "map Rate_PolicyType (Rates (GetRates s rt)) = rates_order rt"
    by (simp add: r o_def)
  have len: "length (Rates (GetRates s rt)) = card (dom (BaseRates rules))"
    using distinct_card [OF d] by (simp add: r eq)
  have each: "\<forall>r \<in> set (Rates (GetRates s rt)).
               \<exists>policyRates. BaseRates rules (Rate_PolicyType r) = Some policyRates
                 \<and> Rate_BaseRate r = Base policyRates \<and> Rate_Coverage r = Coverage policyRates"
    using sub by (auto simp: r)
  show ?thesis
    using names d eq len each
    by (simp add: CalculateQuote_steps_frame CalculateQuote_step_def)
qed

theorem rates_projection_witness:
  "pricingRules (repo (example_service True)) = Some example_rules
   \<and> range_order (BaseRates example_rules) (rates_order (example_runtime 2))
   \<and> GetRates (example_service True) (example_runtime 2)
       = \<lparr>Rates = [\<lparr>Rate_PolicyType = ''home'', Rate_BaseRate = 1200, Rate_Coverage = Coverage home_rates\<rparr>,
                   \<lparr>Rate_PolicyType = ''auto'', Rate_BaseRate = 800, Rate_Coverage = Coverage auto_rates\<rparr>],
          Timestamp = 1002\<rparr>
   \<and> map Rate_PolicyType (Rates (GetRates (example_service True) (example_runtime 2))) = [''home'', ''auto'']
   \<and> GetRates (CalculateQuote_steps (example_service True)
         [(example_runtime 1, example_request), (example_runtime 4, threshold0_request)])
         (example_runtime 2)
       = GetRates (example_service True) (example_runtime 2)"
proof -
  have h1: "pricingRules (repo (example_service True)) = Some example_rules"
    by (simp add: example_service_def)
  have h2: "range_order (BaseRates example_rules) (rates_order (example_runtime 2))"
    by (auto simp: range_order_def example_rules_def example_runtime_def)
  note t = rates_projection [OF h1 h2]
  have g: "GetRates (example_service True) (example_runtime 2)
       = \<lparr>Rates = [\<lparr>Rate_PolicyType = ''home'', Rate_BaseRate = 1200, Rate_Coverage = Coverage home_rates\<rparr>,
                   \<lparr>Rate_PolicyType = ''auto'', Rate_BaseRate = 800, Rate_Coverage = Coverage auto_rates\<rparr>],
          Timestamp = 1002\<rparr>"
    by (simp add: GetRates_def GetAllRates_def example_service_def example_rules_def
          example_runtime_def map_filter_simps)
       (simp add: auto_rates_def home_rates_def)
  have n: "map Rate_PolicyType (Rates (GetRates (example_service True) (example_runtime 2))) = [''home'', ''auto'']"
    using t [THEN conjunct1] by (simp add: example_runtime_def)
  have f: "GetRates (CalculateQuote_steps (example_service True)
         [(example_runtime 1, example_request), (example_runtime 4, threshold0_request)])
         (example_runtime 2)
       = GetRates (example_service True) (example_runtime 2)"
    using t [where calls = "[(example_runtime 1, example_request), (example_runtime 4, threshold0_request)]"]
    by simp
  from h1 h2 g n f show ?thesis by simp
qed

end
